theory Spec2Isabelle
  imports Complex_Main
begin

section \<open>Python and numpy values\<close>

text \<open>
  The model follows \<^verbatim>\<open>kamrecsys/score_predictor/matrix_factorization.py\<close> (class PMF),
  \<^verbatim>\<open>kamrecsys/recommenders.py\<close> (BaseEventRecommender.predict) and
  \<^verbatim>\<open>kamrecsys/data/event.py\<close> (EventUtilMixin.to\_iid\_event).

  Conventions.
  \<^item> A numpy array of float64 is a list of reals: rounding and overflow are not modelled.
    The one non-finite value the code can produce from finite inputs without raising,
    the quotient of a numpy scalar by the Python integer 0, is the value \<open>NaN\<close> below.
  \<^item> A numpy array of integers is a list of \<open>int\<close>; an event array of shape
    (n\_events, 2) is a list of pairs (user, item).
  \<^item> Every raise of the source is a value \<open>Inl e\<close> of the result type.
\<close>

datatype py_error = IndexError | ValueError | ZeroDivisionError | TypeError

datatype np_float = Num real | NaN

type_synonym event = "int \<times> int"

definition and_then :: "py_error + 'a \<Rightarrow> ('a \<Rightarrow> py_error + 'b) \<Rightarrow> py_error + 'b" where
  "and_then m f = (case m of Inl e \<Rightarrow> Inl e | Inr v \<Rightarrow> f v)"

text \<open>Evaluating the elements of an array expression in order: the first raise wins.\<close>

fun collect :: "(py_error + 'a) list \<Rightarrow> py_error + 'a list" where
  "collect [] = Inr []"
| "collect (x # xs) =
     (case x of
        Inl e \<Rightarrow> Inl e
      | Inr v \<Rightarrow> (case collect xs of Inl e \<Rightarrow> Inl e | Inr vs \<Rightarrow> Inr (v # vs)))"

text \<open>
  numpy indexing of an axis of length \<open>n\<close> by an integer: a negative index counts from
  the end, and an index outside \<open>[-n, n)\<close> raises IndexError.
\<close>

definition np_index :: "nat \<Rightarrow> int \<Rightarrow> py_error + nat" where
  "np_index n i =
     (if 0 \<le> i \<and> i < int n then Inr (nat i)
      else if - int n \<le> i \<and> i < 0 then Inr (nat (int n + i))
      else Inl IndexError)"

definition np_get :: "'a list \<Rightarrow> int \<Rightarrow> py_error + 'a" where
  "np_get xs i = and_then (np_index (length xs) i) (\<lambda>j. Inr (xs ! j))"

text \<open>Fancy indexing \<^verbatim>\<open>xs[idx]\<close> with an integer array.\<close>

definition np_take :: "'a list \<Rightarrow> int list \<Rightarrow> py_error + 'a list" where
  "np_take xs idx = collect (map (np_get xs) idx)"

text \<open>
  Elementwise arithmetic of two one-dimensional arrays: equal lengths, or one of them of
  length 1, which is broadcast; anything else raises ValueError.
\<close>

definition np_broadcast2 ::
  "(real \<Rightarrow> real \<Rightarrow> real) \<Rightarrow> real list \<Rightarrow> real list \<Rightarrow> py_error + real list" where
  "np_broadcast2 f xs ys =
     (if length xs = length ys then Inr (map2 f xs ys)
      else if length xs = 1 then Inr (map (f (xs ! 0)) ys)
      else if length ys = 1 then Inr (map (\<lambda>x. f x (ys ! 0)) xs)
      else Inl ValueError)"

text \<open>
  \<^verbatim>\<open>a[:] = b\<close> for one-dimensional arrays: \<open>b\<close> has the length of \<open>a\<close> or length 1
  (broadcast), otherwise ValueError. The result is the new content of \<open>a\<close>.
\<close>

definition np_assign :: "nat \<Rightarrow> real list \<Rightarrow> py_error + real list" where
  "np_assign n b =
     (if length b = n then Inr b
      else if length b = 1 then Inr (replicate n (b ! 0))
      else Inl ValueError)"

text \<open>
  \<^verbatim>\<open>np.bincount(x, weights=w, minlength=m)\<close>: negative entries of \<open>x\<close> and a weight array
  of another length raise ValueError; bin \<open>b\<close> of the result is the sum of the weights
  of the positions that hold \<open>b\<close>, and the result has \<open>max m (max x + 1)\<close> bins.
\<close>

definition bincount :: "int list \<Rightarrow> real list \<Rightarrow> nat \<Rightarrow> py_error + real list" where
  "bincount x w m =
     (if list_ex (\<lambda>i. i < 0) x then Inl ValueError
      else if length w \<noteq> length x then Inl ValueError
      else Inr (map (\<lambda>b. sum_list (map snd (filter (\<lambda>xw. fst xw = int b) (zip x w))))
                  [0 ..< max m (if x = [] then 0 else nat (fold max x 0) + 1)]))"

definition dot :: "real list \<Rightarrow> real list \<Rightarrow> real" where
  "dot xs ys = sum_list (map2 (*) xs ys)"

definition sumsq :: "real list \<Rightarrow> real" where
  "sumsq xs = sum_list (map (\<lambda>x. x ^ 2) xs)"

section \<open>The parameter layout\<close>

text \<open>
  \<^verbatim>\<open>self._dt\<close> (lines 153 to 159) is the structured dtype with the fields, in this order,
  \<^verbatim>\<open>('mu', np.float, (1,))\<close>, \<^verbatim>\<open>('bu', np.float, n_users)\<close>, \<^verbatim>\<open>('bi', np.float, n_items)\<close>,
  \<^verbatim>\<open>('p', np.float, (n_users, k))\<close> and \<^verbatim>\<open>('q', np.float, (n_items, k))\<close>. It is kept as its
  three parameters. numpy lays the fields out one after another, so a field starts where
  the fields before it end, and it refuses a field of \<open>2 ^ 31\<close> bytes or more (\<open>2 ^ 28\<close>
  floats) with ValueError; the model refuses a whole record of that size in the same way,
  and no statement below is about a record that large. Allocation never fails.
\<close>

record dtype =
  dt_users :: nat
  dt_items :: nat
  dt_k :: nat

definition itemsize :: "dtype \<Rightarrow> nat" where
  "itemsize dt = 1 + dt_users dt + dt_items dt + dt_users dt * dt_k dt + dt_items dt * dt_k dt"

definition np_dtype :: "nat \<Rightarrow> nat \<Rightarrow> nat \<Rightarrow> py_error + dtype" where
  "np_dtype n_users n_items k =
     (let dt = \<lparr> dt_users = n_users, dt_items = n_items, dt_k = k \<rparr>
      in if 2 ^ 28 \<le> itemsize dt then Inl ValueError else Inr dt)"

definition off_bu :: "dtype \<Rightarrow> nat" where
  "off_bu dt = 1"

definition off_bi :: "dtype \<Rightarrow> nat" where
  "off_bi dt = 1 + dt_users dt"

definition off_p :: "dtype \<Rightarrow> nat" where
  "off_p dt = 1 + dt_users dt + dt_items dt"

definition off_q :: "dtype \<Rightarrow> nat" where
  "off_q dt = 1 + dt_users dt + dt_items dt + dt_users dt * dt_k dt"

text \<open>
  What \<^verbatim>\<open>coef.view(self._dt)[name][0]\<close> is. A field whose shape is a tuple is an array that
  shares the storage of \<open>coef\<close>: it is kept as the place where it starts in the buffer and
  its shape, and it is read and written in the buffer. A field whose shape is given as an
  integer \<open>n\<close>, as bu and bi are, is such an array of length \<open>n\<close> unless \<open>n\<close> is 1:
  numpy reads \<^verbatim>\<open>(np.float, 1)\<close> as \<^verbatim>\<open>np.float\<close> itself, the field has no shape, and
  \<^verbatim>\<open>[name][0]\<close> is a \<^verbatim>\<open>numpy.float64\<close>, a copy of the number that the buffer held then.
\<close>

datatype vec = Float64 real | View1 nat nat

datatype mat = View2 nat nat nat

record views =
  mu :: vec
  bu :: vec
  bi :: vec
  p :: mat
  q :: mat

definition int_field :: "real list \<Rightarrow> nat \<Rightarrow> nat \<Rightarrow> vec" where
  "int_field coef off n = (if n = 1 then Float64 (coef ! off) else View1 off n)"

text \<open>
  \<^verbatim>\<open>coef.view(self._dt)\<close> reinterprets the buffer as records of \<open>itemsize\<close> floats:
  ValueError when the length is not a multiple of it; \<^verbatim>\<open>[name][0]\<close> then takes the
  first record, IndexError when there is none.
\<close>

definition view :: "dtype \<Rightarrow> real list \<Rightarrow> py_error + views" where
  "view dt coef =
     (if length coef mod itemsize dt \<noteq> 0 then Inl ValueError
      else if coef = [] then Inl IndexError
      else Inr \<lparr> mu = View1 0 1,
                 bu = int_field coef (off_bu dt) (dt_users dt),
                 bi = int_field coef (off_bi dt) (dt_items dt),
                 p = View2 (off_p dt) (dt_users dt) (dt_k dt),
                 q = View2 (off_q dt) (dt_items dt) (dt_k dt) \<rparr>)"

text \<open>
  Reading and writing through a view, in the buffer \<open>buf\<close> it shares. \<^verbatim>\<open>a[i]\<close> and
  \<^verbatim>\<open>a[idx]\<close> on a \<^verbatim>\<open>numpy.float64\<close> raise IndexError (invalid index to scalar variable),
  and \<^verbatim>\<open>a[i] = x\<close> on it raises TypeError (no item assignment).
\<close>

fun vec_get :: "real list \<Rightarrow> vec \<Rightarrow> int \<Rightarrow> py_error + real" where
  "vec_get buf (Float64 y) i = Inl IndexError"
| "vec_get buf (View1 off n) i = and_then (np_index n i) (\<lambda>j. Inr (buf ! (off + j)))"

fun vec_take :: "real list \<Rightarrow> vec \<Rightarrow> int list \<Rightarrow> py_error + real list" where
  "vec_take buf (Float64 y) idx = Inl IndexError"
| "vec_take buf (View1 off n) idx = collect (map (vec_get buf (View1 off n)) idx)"

fun vec_set :: "real list \<Rightarrow> vec \<Rightarrow> int \<Rightarrow> real \<Rightarrow> py_error + real list" where
  "vec_set buf (Float64 y) i x = Inl TypeError"
| "vec_set buf (View1 off n) i x = and_then (np_index n i) (\<lambda>j. Inr (buf[off + j := x]))"

text \<open>The elements of the array, as \<^verbatim>\<open>a ** 2\<close> and \<^verbatim>\<open>np.r_[a, 0.0]\<close> read them.\<close>

fun vec_values :: "real list \<Rightarrow> vec \<Rightarrow> real list" where
  "vec_values buf (Float64 y) = [y]"
| "vec_values buf (View1 off n) = take n (drop off buf)"

definition rows :: "nat \<Rightarrow> nat \<Rightarrow> real list \<Rightarrow> real list list" where
  "rows n k xs = map (\<lambda>r. take k (drop (r * k) xs)) [0 ..< n]"

text \<open>A two-dimensional view is row-major: row \<open>r\<close> starts \<open>r * k\<close> floats after its start.\<close>

fun mat_rows :: "real list \<Rightarrow> mat \<Rightarrow> real list list" where
  "mat_rows buf (View2 off n k) = rows n k (drop off buf)"

fun mat_get :: "real list \<Rightarrow> mat \<Rightarrow> int \<Rightarrow> int \<Rightarrow> py_error + real" where
  "mat_get buf (View2 off n k) i j =
     and_then (np_index n i) (\<lambda>r. and_then (np_index k j) (\<lambda>c. Inr (buf ! (off + r * k + c))))"

fun mat_set :: "real list \<Rightarrow> mat \<Rightarrow> int \<Rightarrow> int \<Rightarrow> real \<Rightarrow> py_error + real list" where
  "mat_set buf (View2 off n k) i j x =
     and_then (np_index n i) (\<lambda>r. and_then (np_index k j) (\<lambda>c. Inr (buf[off + r * k + c := x])))"

text \<open>\<^verbatim>\<open>a[idx, :]\<close> with an integer array: the rows \<open>idx\<close>.\<close>

definition mat_take :: "real list \<Rightarrow> mat \<Rightarrow> int list \<Rightarrow> py_error + real list list" where
  "mat_take buf m idx = np_take (mat_rows buf m) idx"

text \<open>\<^verbatim>\<open>a[off : off + len(vals)] = vals\<close> on the flat buffer.\<close>

definition write_slice :: "real list \<Rightarrow> nat \<Rightarrow> real list \<Rightarrow> real list" where
  "write_slice coef off vals = take off coef @ vals @ drop (off + length vals) coef"

text \<open>\<^verbatim>\<open>a[0:n, :] = vals\<close> for the \<open>n * k\<close> numbers of an array of the shape of \<open>a\<close>, row by row.\<close>

fun mat_assign :: "real list \<Rightarrow> mat \<Rightarrow> real list \<Rightarrow> real list" where
  "mat_assign buf (View2 off n k) vals = write_slice buf off vals"

text \<open>
  An entry of the parameters is named by its field and its position, and \<open>offset\<close> is the
  position that the layout gives it in the flat buffer: the regions global bias (length
  1), user biases (\<open>n_users\<close>), item biases (\<open>n_items\<close>), user factors (\<open>n_users * k\<close>, row-major
  by user) and item factors (\<open>n_items * k\<close>, row-major by item) follow one another in this
  order. \<open>read_entry\<close> and \<open>write_entry\<close> are \<^verbatim>\<open>a[i]\<close>, \<^verbatim>\<open>a[i, j]\<close> and the assignments to
  them on the view of the entry's field.
\<close>

datatype entry = Mu | Bu nat | Bi nat | P nat nat | Q nat nat

fun entry_ok :: "dtype \<Rightarrow> entry \<Rightarrow> bool" where
  "entry_ok dt Mu = True"
| "entry_ok dt (Bu u) = (u < dt_users dt)"
| "entry_ok dt (Bi i) = (i < dt_items dt)"
| "entry_ok dt (P u j) = (u < dt_users dt \<and> j < dt_k dt)"
| "entry_ok dt (Q i j) = (i < dt_items dt \<and> j < dt_k dt)"

fun offset :: "dtype \<Rightarrow> entry \<Rightarrow> nat" where
  "offset dt Mu = 0"
| "offset dt (Bu u) = 1 + u"
| "offset dt (Bi i) = 1 + dt_users dt + i"
| "offset dt (P u j) = 1 + dt_users dt + dt_items dt + u * dt_k dt + j"
| "offset dt (Q i j) = 1 + dt_users dt + dt_items dt + dt_users dt * dt_k dt + i * dt_k dt + j"

fun read_entry :: "real list \<Rightarrow> views \<Rightarrow> entry \<Rightarrow> py_error + real" where
  "read_entry buf v Mu = vec_get buf (mu v) 0"
| "read_entry buf v (Bu u) = vec_get buf (bu v) (int u)"
| "read_entry buf v (Bi i) = vec_get buf (bi v) (int i)"
| "read_entry buf v (P u j) = mat_get buf (p v) (int u) (int j)"
| "read_entry buf v (Q i j) = mat_get buf (q v) (int i) (int j)"

fun write_entry :: "real list \<Rightarrow> views \<Rightarrow> entry \<Rightarrow> real \<Rightarrow> py_error + real list" where
  "write_entry buf v Mu x = vec_set buf (mu v) 0 x"
| "write_entry buf v (Bu u) x = vec_set buf (bu v) (int u) x"
| "write_entry buf v (Bi i) x = vec_set buf (bi v) (int i) x"
| "write_entry buf v (P u j) x = mat_set buf (p v) (int u) (int j) x"
| "write_entry buf v (Q i j) x = mat_set buf (q v) (int i) (int j) x"

definition region :: "entry \<Rightarrow> nat" where
  "region e = (case e of Mu \<Rightarrow> 0 | Bu _ \<Rightarrow> 1 | Bi _ \<Rightarrow> 2 | P _ _ \<Rightarrow> 3 | Q _ _ \<Rightarrow> 4)"

section \<open>PMF\<close>

text \<open>
  \<^verbatim>\<open>PMF.__init__\<close> stores C and k as given (\<^verbatim>\<open>np.float(C)\<close>, \<^verbatim>\<open>np.int(k)\<close>) and checks
  nothing. k and the object counts are natural numbers here.
  \<^verbatim>\<open>_init_coef\<close> adds \<^verbatim>\<open>_dt\<close>, \<^verbatim>\<open>_coef\<close> and \<^verbatim>\<open>_reg\<close>.
\<close>

record pmf =
  self_C :: real
  self_k :: nat

definition PMF :: "real \<Rightarrow> nat \<Rightarrow> pmf" where
  "PMF c k = \<lparr> self_C = c, self_k = k \<rparr>"

record pmf_fit = pmf +
  self_dt :: dtype
  self_coef :: "real list"
  self_reg :: real

subsection \<open>\_init\_coef\<close>

fun for_each :: "nat list \<Rightarrow> (nat \<Rightarrow> 's \<Rightarrow> py_error + 's) \<Rightarrow> 's \<Rightarrow> py_error + 's" where
  "for_each [] body s = Inr s"
| "for_each (i # js) body s =
     (case body i s of Inl e \<Rightarrow> Inl e | Inr s' \<Rightarrow> for_each js body s')"

text \<open>\<^verbatim>\<open>np.nonzero(col == i)[0]\<close>: the positions of the column that hold \<open>i\<close>, ascending.\<close>

definition nonzero_eq :: "int list \<Rightarrow> nat \<Rightarrow> nat list" where
  "nonzero_eq col i = filter (\<lambda>e. col ! e = int i) [0 ..< length col]"

text \<open>
  Lines 175 to 178. \<open>v\<close> holds \<^verbatim>\<open>self.mu_\<close>, \<^verbatim>\<open>self.bu_\<close>, \<^verbatim>\<open>self.bi_\<close>, \<^verbatim>\<open>self.p_\<close> and
  \<^verbatim>\<open>self.q_\<close>, taken from the buffer of zeros at lines 167 to 171; the loop body reads and
  writes the buffer \<^verbatim>\<open>self._coef\<close> through them. The right-hand side of the assignment is
  evaluated before the assignment is tried.
\<close>

definition init_bu :: "views \<Rightarrow> event list \<Rightarrow> real list \<Rightarrow> nat \<Rightarrow> real list \<Rightarrow> py_error + real list" where
  "init_bu v ev sc i coef =
     (let j = nonzero_eq (map fst ev) i in
      if length j > 0 then
        and_then (np_take sc (map int j)) (\<lambda>s.
        and_then (vec_get coef (mu v) 0) (\<lambda>m.
          vec_set coef (bu v) (int i) (sum_list (map (\<lambda>x. x - m) s) / real (length j))))
      else Inr coef)"

text \<open>Lines 179 to 184.\<close>

definition init_bi :: "views \<Rightarrow> event list \<Rightarrow> real list \<Rightarrow> nat \<Rightarrow> real list \<Rightarrow> py_error + real list" where
  "init_bi v ev sc i coef =
     (let j = nonzero_eq (map snd ev) i in
      if length j > 0 then
        and_then (np_take sc (map int j)) (\<lambda>s.
        and_then (vec_get coef (mu v) 0) (\<lambda>m.
        and_then (vec_take coef (bu v) (map (\<lambda>e. fst (ev ! e)) j)) (\<lambda>b.
          vec_set coef (bi v) (int i)
            (sum_list (map2 (\<lambda>x y. x - (m + y)) s b) / real (length j)))))
      else Inr coef)"

text \<open>Lines 188 to 191: one step of the accumulation of the residual variance.\<close>

definition init_var :: "views \<Rightarrow> real list \<Rightarrow> event list \<Rightarrow> real list \<Rightarrow> nat \<Rightarrow> real \<Rightarrow> py_error + real" where
  "init_var v coef ev sc i var =
     and_then (np_get sc (int i)) (\<lambda>s.
     and_then (vec_get coef (mu v) 0) (\<lambda>m.
     and_then (vec_get coef (bu v) (fst (ev ! i))) (\<lambda>b.
     and_then (vec_get coef (bi v) (snd (ev ! i))) (\<lambda>c.
       Inr (var + (s - (m + b + c)) ^ 2)))))"

text \<open>
  \<^verbatim>\<open>self._rng.normal(0.0, sd, (n, k))\<close> is \<open>0.0 + sd * z\<close> for the next \<open>n * k\<close> standard
  normal variates \<open>z\<close> of the generator, row by row. The generator is the sequence
  \<open>rng\<close> of its variates; the draw for p takes the first \<open>n_users * k\<close>, the draw for q
  the following ones.

  With no event, line 174 divides the numpy scalar \<^verbatim>\<open>np.sum(sc)\<close> by 0, which gives nan
  and a warning; the loops of lines 175 to 191 then find no event and read nothing, and
  line 192 divides the Python float \<open>0.0\<close> by the Python integer 0, which raises
  ZeroDivisionError. The model's \<open>sum_list sc / 0\<close> stands for that nan; it is never read.
\<close>

definition init_coef ::
  "pmf \<Rightarrow> (nat \<Rightarrow> real) \<Rightarrow> event list \<Rightarrow> real list \<Rightarrow> nat \<times> nat \<Rightarrow> py_error + pmf_fit" where
  "init_coef self rng ev sc n_objects =
     (let n_events = length ev;
          n_users = fst n_objects;
          n_items = snd n_objects;
          k = self_k self
      in
      and_then (np_dtype n_users n_items k) (\<lambda>dt.
      let coef0 = replicate (1 + n_users + n_items + n_users * k + n_items * k) 0 in
      and_then (view dt coef0) (\<lambda>v.
      and_then (vec_set coef0 (mu v) 0 (sum_list sc / real n_events)) (\<lambda>coef1.
      and_then (for_each [0 ..< n_users] (init_bu v ev sc) coef1) (\<lambda>coef2.
      and_then (for_each [0 ..< n_items] (init_bi v ev sc) coef2) (\<lambda>coef3.
      and_then (for_each [0 ..< n_events] (init_var v coef3 ev sc) 0) (\<lambda>var.
        if n_events = 0 then Inl ZeroDivisionError
        else
          let var' = var / real n_events;
              coef4 = mat_assign coef3 (p v)
                        (map (\<lambda>j. 0 + sqrt var' * rng j) [0 ..< n_users * k]);
              coef5 = mat_assign coef4 (q v)
                        (map (\<lambda>j. 0 + sqrt var' * rng (n_users * k + j)) [0 ..< n_items * k])
          in Inr \<lparr> self_C = self_C self, self_k = k, self_dt = dt, self_coef = coef5,
                   self_reg = self_C self / real (1 + (k + 1) * (n_users + n_items)) \<rparr>)))))))"

subsection \<open>loss and grad\_loss\<close>

text \<open>
  The estimated scores
  \<^verbatim>\<open>mu[0] + bu[ev[:, 0]] + bi[ev[:, 1]] + np.sum(p[ev[:, 0], :] * q[ev[:, 1], :], axis=1)\<close>
  of \<^verbatim>\<open>loss\<close> and \<^verbatim>\<open>grad_loss\<close>, on the views of \<open>coef\<close>.
\<close>

definition esc :: "real list \<Rightarrow> views \<Rightarrow> event list \<Rightarrow> py_error + real list" where
  "esc coef v ev =
     and_then (vec_get coef (mu v) 0) (\<lambda>m.
     and_then (vec_take coef (bu v) (map fst ev)) (\<lambda>b.
     and_then (vec_take coef (bi v) (map snd ev)) (\<lambda>c.
     and_then (mat_take coef (p v) (map fst ev)) (\<lambda>pu.
     and_then (mat_take coef (q v) (map snd ev)) (\<lambda>qi.
       Inr (map (\<lambda>e. m + b ! e + c ! e + dot (pu ! e) (qi ! e)) [0 ..< length ev]))))))"

text \<open>
  \<^verbatim>\<open>loss / n_events\<close> divides a numpy scalar: with no event it is nan (and a warning),
  not a raise.
\<close>

definition loss ::
  "pmf_fit \<Rightarrow> real list \<Rightarrow> event list \<Rightarrow> real list \<Rightarrow> nat \<times> nat \<Rightarrow> py_error + np_float" where
  "loss self coef ev sc n_objects =
     (let n_events = length ev in
      and_then (view (self_dt self) coef) (\<lambda>v.
      and_then (esc coef v ev) (\<lambda>es.
      and_then (np_broadcast2 (-) sc es) (\<lambda>d.
        let loss = sumsq d;
            reg = sumsq (vec_values coef (bu v)) + sumsq (vec_values coef (bi v)) +
                  sumsq (concat (mat_rows coef (p v))) + sumsq (concat (mat_rows coef (q v)))
        in if n_events = 0 then Inr NaN
           else Inr (Num (loss / real n_events + self_reg self * reg))))))"

text \<open>
  \<^verbatim>\<open>grad_loss\<close>. The gradient buffer is \<^verbatim>\<open>zeros_like(coef)\<close>, written through its five
  views; when line 283 has not raised, bu and bi are arrays, and so are the views of the
  gradient. \<open>grad_cols\<close> is the loop \<^verbatim>\<open>for i in xrange(self.k)\<close> that fills column \<open>i\<close> of a
  factor gradient with a bincount of column \<open>i\<close> of the weights (IndexError when the
  weights have no such column); columns the loop does not reach stay 0. The result is the
  gradient buffer: its five fields one after another, and zeros behind them when \<open>coef\<close>
  holds more than one record.
\<close>

definition grad_cols ::
  "nat \<Rightarrow> nat \<Rightarrow> nat \<Rightarrow> nat \<Rightarrow> int list \<Rightarrow> real list list \<Rightarrow> py_error + real list list" where
  "grad_cols k kk n m idx weights =
     and_then
       (collect (map (\<lambda>i. if i < kk
                           then and_then (bincount idx (map (\<lambda>w. w ! i) weights) m) (np_assign n)
                           else Inl IndexError) [0 ..< k]))
       (\<lambda>cols. Inr (map (\<lambda>u. map (\<lambda>i. if i < k then cols ! i ! u else 0) [0 ..< kk]) [0 ..< n]))"

definition grad_loss ::
  "pmf_fit \<Rightarrow> real list \<Rightarrow> event list \<Rightarrow> real list \<Rightarrow> nat \<times> nat \<Rightarrow> py_error + np_float list" where
  "grad_loss self coef ev sc n_objects =
     (let n_events = length ev;
          n_users = fst n_objects;
          n_items = snd n_objects;
          dt = self_dt self
      in
      and_then (view dt coef) (\<lambda>v.
      and_then (esc coef v ev) (\<lambda>es.
      and_then (np_broadcast2 (-) sc es) (\<lambda>d.
        let neg_res = map uminus d;
            grad_mu = [sum_list neg_res]
        in
        and_then (and_then (bincount (map fst ev) neg_res n_users) (np_assign (dt_users dt))) (\<lambda>grad_bu.
        and_then (and_then (bincount (map snd ev) neg_res n_items) (np_assign (dt_items dt))) (\<lambda>grad_bi.
        and_then (mat_take coef (q v) (map snd ev)) (\<lambda>qi.
        and_then (grad_cols (self_k self) (dt_k dt) (dt_users dt) n_users (map fst ev)
                    (map2 (\<lambda>r row. map (\<lambda>x. r * x) row) neg_res qi)) (\<lambda>grad_p.
        and_then (mat_take coef (p v) (map fst ev)) (\<lambda>pu.
        and_then (grad_cols (self_k self) (dt_k dt) (dt_items dt) n_items (map snd ev)
                    (map2 (\<lambda>r row. map (\<lambda>x. r * x) row) neg_res pu)) (\<lambda>grad_q.
          if n_events = 0 then Inr (replicate (length coef) NaN)
          else
            let s = (\<lambda>g. g / real n_events);
                r = self_reg self
            in Inr (map Num
                 (map s grad_mu @
                  map2 (\<lambda>g x. s g + r * x) grad_bu (vec_values coef (bu v)) @
                  map2 (\<lambda>g x. s g + r * x) grad_bi (vec_values coef (bi v)) @
                  concat (map2 (map2 (\<lambda>g x. s g + r * x)) grad_p (mat_rows coef (p v))) @
                  concat (map2 (map2 (\<lambda>g x. s g + r * x)) grad_q (mat_rows coef (q v))) @
                  replicate (length coef - itemsize dt) 0))))))))))))"

subsection \<open>fit and raw\_predict\<close>

text \<open>
  \<^verbatim>\<open>fmin_cg\<close> (scipy) is a parameter: from the loss, the start buffer and the gradient
  it returns the buffer \<^verbatim>\<open>res[0]\<close>, or the raise of an evaluation. The data access of
  the base class (\<^verbatim>\<open>get_event\<close>, \<^verbatim>\<open>get_score\<close>) is the arguments \<open>ev\<close>, \<open>sc\<close>,
  \<open>n_objects\<close>. After lines 378 to 384 the attributes \<^verbatim>\<open>mu_\<close>, \<^verbatim>\<open>bu_\<close>, \<^verbatim>\<open>bi_\<close>, \<^verbatim>\<open>p_\<close>,
  \<^verbatim>\<open>q_\<close> are arrays of their own (\<^verbatim>\<open>copy\<close>, \<^verbatim>\<open>np.r_\<close>), the fields \<open>fit_mu\<close> to \<open>fit_q\<close> of
  a \<open>params\<close> record.
\<close>

type_synonym optimizer =
  "(real list \<Rightarrow> py_error + np_float) \<Rightarrow> real list \<Rightarrow> (real list \<Rightarrow> py_error + np_float list)
     \<Rightarrow> py_error + real list"

record params =
  fit_mu :: "real list"
  fit_bu :: "real list"
  fit_bi :: "real list"
  fit_p :: "real list list"
  fit_q :: "real list list"

text \<open>Lines 377 to 384: the rows for unknown users and items.\<close>

definition add_unknown :: "pmf_fit \<Rightarrow> py_error + params" where
  "add_unknown self =
     and_then (view (self_dt self) (self_coef self)) (\<lambda>v.
       Inr \<lparr> fit_mu = vec_values (self_coef self) (mu v),
             fit_bu = vec_values (self_coef self) (bu v) @ [0.0],
             fit_bi = vec_values (self_coef self) (bi v) @ [0.0],
             fit_p = mat_rows (self_coef self) (p v) @ [replicate (self_k self) 0],
             fit_q = mat_rows (self_coef self) (q v) @ [replicate (self_k self) 0] \<rparr>)"

definition fit ::
  "pmf \<Rightarrow> optimizer \<Rightarrow> (nat \<Rightarrow> real) \<Rightarrow> event list \<Rightarrow> real list \<Rightarrow> nat \<times> nat \<Rightarrow> py_error + params" where
  "fit self0 fmin_cg rng ev sc n_objects =
     and_then (init_coef self0 rng ev sc n_objects) (\<lambda>self.
     and_then (loss self (self_coef self) ev sc n_objects) (\<lambda>initial_loss.
     and_then (fmin_cg (\<lambda>c. loss self c ev sc n_objects) (self_coef self)
                       (\<lambda>c. grad_loss self c ev sc n_objects)) (\<lambda>res0.
     and_then (np_assign (length (self_coef self)) res0) (\<lambda>coef'.
       add_unknown (self \<lparr> self_coef := coef' \<rparr>)))))"

text \<open>Lines 423 to 425, on the arrays of a fitted model.\<close>

definition raw_predict :: "params \<Rightarrow> event list \<Rightarrow> py_error + real list" where
  "raw_predict self ev =
     and_then (np_get (fit_mu self) 0) (\<lambda>m.
     and_then (np_take (fit_bu self) (map fst ev)) (\<lambda>b.
     and_then (np_take (fit_bi self) (map snd ev)) (\<lambda>c.
     and_then (np_take (fit_p self) (map fst ev)) (\<lambda>pu.
     and_then (np_take (fit_q self) (map snd ev)) (\<lambda>qi.
       Inr (map (\<lambda>e. m + b ! e + c ! e + dot (pu ! e) (qi ! e)) [0 ..< length ev]))))))"

section \<open>Prediction from external ids\<close>

text \<open>
  The attributes of a recommender that \<^verbatim>\<open>to_iid_event\<close> and \<^verbatim>\<open>predict\<close> read:
  \<^verbatim>\<open>n_objects\<close> and the dictionaries \<^verbatim>\<open>iid\<close> by object type, \<^verbatim>\<open>event_otypes\<close> and
  \<^verbatim>\<open>s_event\<close>. A two-dimensional integer array is the list of its rows.
\<close>

record recommender =
  n_objects :: "int list"
  iid :: "(int \<rightharpoonup> int) list"
  event_otypes :: "int list"
  s_event :: nat

definition width :: "int list list \<Rightarrow> nat" where
  "width a = (case a of [] \<Rightarrow> 0 | r # _ \<Rightarrow> length r)"

text \<open>
  \<^verbatim>\<open>to_iid_event\<close> with \<^verbatim>\<open>missing_values=None\<close> on a two-dimensional array (the second
  branch; \<^verbatim>\<open>predict\<close> always passes one). Column \<open>e\<close> is converted with the dictionary
  of its object type; \<^verbatim>\<open>iid.get(i, missing_values[e])\<close> answers an unknown id with the
  number of objects of that type.
\<close>

definition to_iid_event :: "recommender \<Rightarrow> int list list \<Rightarrow> py_error + int list list" where
  "to_iid_event self ev =
     and_then (np_take (n_objects self) (event_otypes self)) (\<lambda>missing_values.
       if width ev \<noteq> s_event self then Inl TypeError
       else
         and_then (collect (map (\<lambda>e.
             and_then (np_get (event_otypes self) (int e)) (\<lambda>t.
             and_then (np_get (iid self) t) (\<lambda>d.
               Inr (map (\<lambda>r. case d (r ! e) of None \<Rightarrow> missing_values ! e | Some i \<Rightarrow> i) ev))))
           [0 ..< s_event self])) (\<lambda>cols.
         Inr (map (\<lambda>n. map (\<lambda>c. c ! n) cols) [0 ..< length ev])))"

text \<open>The columns \<^verbatim>\<open>ev[:, 0]\<close> and \<^verbatim>\<open>ev[:, 1]\<close> that \<^verbatim>\<open>raw_predict\<close> reads.\<close>

definition columns01 :: "int list list \<Rightarrow> py_error + event list" where
  "columns01 ev = (if width ev < 2 then Inl IndexError else Inr (map (\<lambda>r. (r ! 0, r ! 1)) ev))"

text \<open>
  \<^verbatim>\<open>BaseEventRecommender.predict\<close>. \<^verbatim>\<open>check_array\<close> (scikit-learn) refuses an array with
  no row or no column with ValueError. \<^verbatim>\<open>np.squeeze\<close> changes the shape of the result
  only.
\<close>

definition predict :: "recommender \<Rightarrow> params \<Rightarrow> int list list \<Rightarrow> py_error + real list" where
  "predict self m eev =
     (if eev = [] \<or> width eev = 0 then Inl ValueError
      else if width eev \<noteq> s_event self then Inl TypeError
      else and_then (to_iid_event self eev) (\<lambda>ev.
           and_then (columns01 ev) (raw_predict m)))"

section \<open>The layout: views and the flat buffer\<close>

text \<open>
  Claim C9. The layout with one user, two items and one factor has the buffer length 7, and
  the entry \<open>Bu 0\<close> of its user-bias region has the offset 1. In the view of the buffer
  \<open>[10, 20, 30, 40, 50, 60, 70]\<close> the field bu is not an array on the buffer but the number
  20 that the buffer holds at offset 1: reading its entry 0 raises IndexError and writing a
  value to its entry 0 raises TypeError, so nothing written through the user-bias region
  reaches the buffer. The other four fields are views at the offsets 0, 2, 4 and 5.
\<close>

theorem layout_single_user:
  "length [10, 20, 30, 40, 50, 60, 70 :: real] = itemsize \<lparr> dt_users = 1, dt_items = 2, dt_k = 1 \<rparr> \<and>
   entry_ok \<lparr> dt_users = 1, dt_items = 2, dt_k = 1 \<rparr> (Bu 0) \<and>
   offset \<lparr> dt_users = 1, dt_items = 2, dt_k = 1 \<rparr> (Bu 0) = 1 \<and>
   view \<lparr> dt_users = 1, dt_items = 2, dt_k = 1 \<rparr> [10, 20, 30, 40, 50, 60, 70] =
     Inr \<lparr> mu = View1 0 1, bu = Float64 20, bi = View1 2 2, p = View2 4 1 1, q = View2 5 2 1 \<rparr> \<and>
   read_entry [10, 20, 30, 40, 50, 60, 70]
     \<lparr> mu = View1 0 1, bu = Float64 20, bi = View1 2 2, p = View2 4 1 1, q = View2 5 2 1 \<rparr> (Bu 0)
     = Inl IndexError \<and>
   write_entry [10, 20, 30, 40, 50, 60, 70]
     \<lparr> mu = View1 0 1, bu = Float64 20, bi = View1 2 2, p = View2 4 1 1, q = View2 5 2 1 \<rparr> (Bu 0) 99
     = Inl TypeError"
  by (simp add: view_def itemsize_def int_field_def off_bu_def off_bi_def off_p_def off_q_def)

section \<open>Sequencing, loops and raises\<close>

lemma and_then_Inr [simp]: "and_then (Inr v) f = f v"
  by (simp add: and_then_def)

lemma and_then_Inl [simp]: "and_then (Inl e) f = Inl e"
  by (simp add: and_then_def)

lemma and_then_eq_Inr:
  "and_then m f = Inr y \<longleftrightarrow> (\<exists>v. m = Inr v \<and> f v = Inr y)"
  by (cases m) simp_all

lemma and_then_eq_Inl:
  "and_then m f = Inl e \<longleftrightarrow> m = Inl e \<or> (\<exists>v. m = Inr v \<and> f v = Inl e)"
  by (cases m) simp_all

lemma for_each_id:
  assumes "\<And>i. i \<in> set xs \<Longrightarrow> body i s = Inr s"
  shows "for_each xs body s = Inr s"
  using assms by (induction xs) simp_all


lemma for_each_first:
  assumes "for_each (i # js) body s = Inr t"
  shows "\<exists>s'. body i s = Inr s'"
  using assms by (cases "body i s") simp_all

lemma np_index_error: "np_index n i = Inl e \<Longrightarrow> e = IndexError"
  by (auto simp: np_index_def split: if_splits)

lemma np_get_error: "np_get xs i = Inl e \<Longrightarrow> e = IndexError"
  by (auto simp: np_get_def and_then_eq_Inl dest: np_index_error)

lemma collect_error:
  assumes "\<And>x e. x \<in> set xs \<Longrightarrow> x = Inl e \<Longrightarrow> e = err"
  shows "collect xs = Inl e \<Longrightarrow> e = err"
  using assms
proof (induction xs)
  case Nil
  then show ?case by simp
next
  case (Cons x xs)
  then show ?case by (cases x; cases "collect xs") auto
qed

lemma np_take_error: "np_take xs idx = Inl e \<Longrightarrow> e = IndexError"
  unfolding np_take_def by (rule collect_error[where xs = "map (np_get xs) idx"]) (auto dest: np_get_error[OF sym])







lemma nonzero_eq_Nil [simp]: "nonzero_eq [] i = []"
  by (simp add: nonzero_eq_def)

lemma itemsize_pos: "0 < itemsize dt"
  by (simp add: itemsize_def)

lemma view_Inr:
  assumes "length coef = itemsize dt"
  shows "view dt coef = Inr \<lparr> mu = View1 0 1,
                 bu = int_field coef (off_bu dt) (dt_users dt),
                 bi = int_field coef (off_bi dt) (dt_items dt),
                 p = View2 (off_p dt) (dt_users dt) (dt_k dt),
                 q = View2 (off_q dt) (dt_items dt) (dt_k dt) \<rparr>"
proof -
  have "coef \<noteq> []" using assms itemsize_pos[of dt] by auto
  then show ?thesis using assms by (simp add: view_def)
qed


lemma for_each_invariant:
  assumes step: "\<And>i s s'. I s \<Longrightarrow> body i s = Inr s' \<Longrightarrow> I s'"
  shows "I s \<Longrightarrow> for_each xs body s = Inr t \<Longrightarrow> I t"
proof (induction xs arbitrary: s)
  case Nil
  then show ?case by simp
next
  case (Cons i xs)
  from Cons.prems(2) obtain s' where b: "body i s = Inr s'" and r: "for_each xs body s' = Inr t"
    by (cases "body i s") simp_all
  have "I s'" using step[OF Cons.prems(1) b] .
  then show ?case using Cons.IH r by blast
qed

lemma vec_set_length: "vec_set buf a i x = Inr buf' \<Longrightarrow> length buf' = length buf"
  by (cases a) (auto simp: and_then_eq_Inr)

lemma init_bu_length: "init_bu v ev sc i coef = Inr coef' \<Longrightarrow> length coef' = length coef"
  by (auto simp: init_bu_def Let_def and_then_eq_Inr split: if_splits dest: vec_set_length)

lemma init_bi_length: "init_bi v ev sc i coef = Inr coef' \<Longrightarrow> length coef' = length coef"
  by (auto simp: init_bi_def Let_def and_then_eq_Inr split: if_splits dest: vec_set_length)

lemma write_slice_length:
  "off + length vals \<le> length coef \<Longrightarrow> length (write_slice coef off vals) = length coef"
  by (simp add: write_slice_def)

lemma vec_get_Inr_View1:
  assumes "vec_get buf a i = Inr x"
  shows "\<exists>off n. a = View1 off n \<and> - int n \<le> i \<and> i < int n"
  using assms by (cases a) (auto simp: and_then_eq_Inr np_index_def split: if_splits)

lemma int_field_View1: "int_field coef off n = View1 off' n' \<Longrightarrow> n \<noteq> 1 \<and> off' = off \<and> n' = n"
  by (auto simp: int_field_def split: if_splits)

section \<open>Runs of the initializer\<close>

lemma init_coef_cases:
  assumes "init_coef self rng ev sc (nu, ni) = Inr s"
  obtains v coef1 coef2 coef3 var where
    "itemsize \<lparr> dt_users = nu, dt_items = ni, dt_k = self_k self \<rparr> < 2 ^ 28"
    "view \<lparr> dt_users = nu, dt_items = ni, dt_k = self_k self \<rparr>
       (replicate (1 + nu + ni + nu * self_k self + ni * self_k self) 0) = Inr v"
    "vec_set (replicate (1 + nu + ni + nu * self_k self + ni * self_k self) 0) (mu v) 0
       (sum_list sc / real (length ev)) = Inr coef1"
    "for_each [0 ..< nu] (init_bu v ev sc) coef1 = Inr coef2"
    "for_each [0 ..< ni] (init_bi v ev sc) coef2 = Inr coef3"
    "for_each [0 ..< length ev] (init_var v coef3 ev sc) 0 = Inr var"
    "ev \<noteq> []"
    "s = \<lparr> self_C = self_C self, self_k = self_k self,
           self_dt = \<lparr> dt_users = nu, dt_items = ni, dt_k = self_k self \<rparr>,
           self_coef = mat_assign
             (mat_assign coef3 (p v)
                (map (\<lambda>j. 0 + sqrt (var / real (length ev)) * rng j) [0 ..< nu * self_k self]))
             (q v)
             (map (\<lambda>j. 0 + sqrt (var / real (length ev)) * rng (nu * self_k self + j))
                [0 ..< ni * self_k self]),
           self_reg = self_C self / real (1 + (self_k self + 1) * (nu + ni)) \<rparr>"
proof -
  let ?dt = "\<lparr> dt_users = nu, dt_items = ni, dt_k = self_k self \<rparr>"
  have sz: "itemsize ?dt < 2 ^ 28"
  proof (rule ccontr)
    assume "\<not> itemsize ?dt < 2 ^ 28"
    then have "np_dtype nu ni (self_k self) = Inl ValueError" by (simp add: np_dtype_def Let_def)
    then show False using assms by (simp add: init_coef_def Let_def)
  qed
  then have d: "np_dtype nu ni (self_k self) = Inr ?dt" by (simp add: np_dtype_def Let_def)
  from assms obtain v coef1 coef2 coef3 var where
    1: "view ?dt (replicate (1 + nu + ni + nu * self_k self + ni * self_k self) 0) = Inr v"
    and 2: "vec_set (replicate (1 + nu + ni + nu * self_k self + ni * self_k self) 0) (mu v) 0
       (sum_list sc / real (length ev)) = Inr coef1"
    and 3: "for_each [0 ..< nu] (init_bu v ev sc) coef1 = Inr coef2"
    and 4: "for_each [0 ..< ni] (init_bi v ev sc) coef2 = Inr coef3"
    and 5: "for_each [0 ..< length ev] (init_var v coef3 ev sc) 0 = Inr var"
    and 6: "(if length ev = 0 then Inl ZeroDivisionError
        else Inr \<lparr> self_C = self_C self, self_k = self_k self,
           self_dt = \<lparr> dt_users = nu, dt_items = ni, dt_k = self_k self \<rparr>,
           self_coef = mat_assign
             (mat_assign coef3 (p v)
                (map (\<lambda>j. 0 + sqrt (var / real (length ev)) * rng j) [0 ..< nu * self_k self]))
             (q v)
             (map (\<lambda>j. 0 + sqrt (var / real (length ev)) * rng (nu * self_k self + j))
                [0 ..< ni * self_k self]),
           self_reg = self_C self / real (1 + (self_k self + 1) * (nu + ni)) \<rparr>) = Inr s"
    unfolding init_coef_def Let_def fst_conv snd_conv d and_then_Inr and_then_eq_Inr by blast
  have 7: "ev \<noteq> []" using 6 by (auto split: if_splits)
  show ?thesis
    by (rule that[OF sz 1 2 3 4 5 7]) (use 6 7 in \<open>simp split: if_splits\<close>)
qed

lemma init_coef_Inr:
  assumes "init_coef self rng ev sc (nu, ni) = Inr s"
  shows "self_C s = self_C self" "self_k s = self_k self"
    "self_dt s = \<lparr> dt_users = nu, dt_items = ni, dt_k = self_k self \<rparr>"
    "self_reg s = self_C self / real (1 + (self_k self + 1) * (nu + ni))"
    "ev \<noteq> []"
    "itemsize \<lparr> dt_users = nu, dt_items = ni, dt_k = self_k self \<rparr> < 2 ^ 28"
proof -
  have "self_C s = self_C self \<and> self_k s = self_k self \<and>
    self_dt s = \<lparr> dt_users = nu, dt_items = ni, dt_k = self_k self \<rparr> \<and>
    self_reg s = self_C self / real (1 + (self_k self + 1) * (nu + ni)) \<and>
    ev \<noteq> [] \<and>
    itemsize \<lparr> dt_users = nu, dt_items = ni, dt_k = self_k self \<rparr> < 2 ^ 28"
  proof (rule init_coef_cases[OF assms], goal_cases)
    case (1 v coef1 coef2 coef3 var)
    show ?case using 1(1) 1(7) unfolding 1(8) by simp
  qed
  then show "self_C s = self_C self" "self_k s = self_k self"
    "self_dt s = \<lparr> dt_users = nu, dt_items = ni, dt_k = self_k self \<rparr>"
    "self_reg s = self_C self / real (1 + (self_k self + 1) * (nu + ni))"
    "ev \<noteq> []"
    "itemsize \<lparr> dt_users = nu, dt_items = ni, dt_k = self_k self \<rparr> < 2 ^ 28"
    by simp_all
qed

text \<open>A run that returns has read \<^verbatim>\<open>self.bu_\<close> and \<^verbatim>\<open>self.bi_\<close> at the first event.\<close>

lemma init_coef_arrays:
  assumes "init_coef self rng ev sc (nu, ni) = Inr s"
  shows "nu \<noteq> 1 \<and> ni \<noteq> 1 \<and> 0 < nu \<and> 0 < ni"
proof (rule init_coef_cases[OF assms], goal_cases)
  case (1 v coef1 coef2 coef3 var)
  let ?dt = "\<lparr> dt_users = nu, dt_items = ni, dt_k = self_k self \<rparr>"
  let ?c0 = "replicate (1 + nu + ni + nu * self_k self + ni * self_k self) (0::real)"
  have v: "view ?dt ?c0 = Inr v" by (rule 1(2))
  have l: "for_each [0 ..< length ev] (init_var v coef3 ev sc) 0 = Inr var" by (rule 1(6))
  have ne: "ev \<noteq> []" by (rule 1(7))
  have len: "length ?c0 = itemsize ?dt" by (simp add: itemsize_def)
  have vb: "bu v = int_field ?c0 (off_bu ?dt) nu" and vi: "bi v = int_field ?c0 (off_bi ?dt) ni"
    using v unfolding view_Inr[OF len] by auto
  have "[0 ..< length ev] = 0 # [1 ..< length ev]" using ne by (simp add: upt_conv_Cons)
  then have "for_each (0 # [1 ..< length ev]) (init_var v coef3 ev sc) 0 = Inr var"
    using l by simp
  from for_each_first[OF this] obtain x where "init_var v coef3 ev sc 0 0 = Inr x" by blast
  then obtain b c where b: "vec_get coef3 (bu v) (fst (ev ! 0)) = Inr b"
    and c: "vec_get coef3 (bi v) (snd (ev ! 0)) = Inr c"
    unfolding init_var_def and_then_eq_Inr by blast
  from vec_get_Inr_View1[OF b] obtain off n where
    b1: "bu v = View1 off n" and b2: "- int n \<le> fst (ev ! 0)" and b3: "fst (ev ! 0) < int n"
    by blast
  have "n = nu \<and> nu \<noteq> 1" using vb b1 int_field_View1[of ?c0 "off_bu ?dt" nu off n] by simp
  then have A: "nu \<noteq> 1 \<and> 0 < nu" using b2 b3 by auto
  from vec_get_Inr_View1[OF c] obtain off' n' where
    c1: "bi v = View1 off' n'" and c2: "- int n' \<le> snd (ev ! 0)" and c3: "snd (ev ! 0) < int n'"
    by blast
  have "n' = ni \<and> ni \<noteq> 1" using vi c1 int_field_View1[of ?c0 "off_bi ?dt" ni off' n'] by simp
  then have B: "ni \<noteq> 1 \<and> 0 < ni" using c2 c3 by auto
  show ?case using A B by simp
qed

lemma for_each_length:
  assumes "\<And>i s s'. body i s = Inr s' \<Longrightarrow> length s' = length s"
    and "for_each xs body s = Inr t"
  shows "length t = length s"
proof -
  have "length s = length s \<Longrightarrow> for_each xs body s = Inr t \<Longrightarrow> length t = length s"
    by (rule for_each_invariant[where I = "\<lambda>s'. length s' = length s"]) (use assms(1) in auto)
  then show ?thesis using assms(2) by simp
qed

lemma init_coef_length:
  assumes "init_coef self rng ev sc (nu, ni) = Inr s"
  shows "length (self_coef s) = itemsize (self_dt s)"
proof (rule init_coef_cases[OF assms], goal_cases)
  case (1 v coef1 coef2 coef3 var)
  let ?dt = "\<lparr> dt_users = nu, dt_items = ni, dt_k = self_k self \<rparr>"
  let ?c0 = "replicate (1 + nu + ni + nu * self_k self + ni * self_k self) (0::real)"
  have len: "length ?c0 = itemsize ?dt" by (simp add: itemsize_def)
  have vp: "p v = View2 (off_p ?dt) nu (self_k self)" and vq: "q v = View2 (off_q ?dt) ni (self_k self)"
    using 1(2) unfolding view_Inr[OF len] by auto
  have l1: "length coef1 = itemsize ?dt" using vec_set_length[OF 1(3)] len by simp
  have l2: "length coef2 = itemsize ?dt" using for_each_length[OF init_bu_length 1(4)] l1 by simp
  have l3: "length coef3 = itemsize ?dt" using for_each_length[OF init_bi_length 1(5)] l2 by simp
  have l4: "length (mat_assign coef3 (p v) xs) = itemsize ?dt" if "length xs = nu * self_k self" for xs
    using that l3 vp by (simp add: write_slice_length itemsize_def off_p_def)
  have l5: "length (mat_assign c (q v) xs) = itemsize ?dt"
    if "length xs = ni * self_k self" "length c = itemsize ?dt" for xs c
    using that vq by (simp add: write_slice_length itemsize_def off_q_def)
  show ?case
    unfolding 1(8) by (simp add: l4 l5)
qed

lemma np_dtype_Inr:
  "itemsize \<lparr> dt_users = nu, dt_items = ni, dt_k = k \<rparr> < 2 ^ 28 \<Longrightarrow>
   np_dtype nu ni k = Inr \<lparr> dt_users = nu, dt_items = ni, dt_k = k \<rparr>"
  by (simp add: np_dtype_def Let_def)

lemmas init_eval = itemsize_def view_def int_field_def
  init_bu_def init_bi_def init_var_def nonzero_eq_def np_take_def np_get_def np_index_def
  write_slice_def rows_def off_bu_def off_bi_def off_p_def off_q_def PMF_def Let_def
  eval_nat_numeral

lemma ex_init1:
  "init_coef (PMF 2 1) (\<lambda>_. 0) [(0, 0), (1, 1)] [1, 3] (2, 2) =
     Inr \<lparr> self_C = 2, self_k = 1, self_dt = \<lparr> dt_users = 2, dt_items = 2, dt_k = 1 \<rparr>,
           self_coef = [2, -1, 1, 0, 0, 0, 0, 0, 0], self_reg = 2 / 9 \<rparr>"
proof -
  have d: "np_dtype 2 2 (self_k (PMF 2 1)) = Inr \<lparr> dt_users = 2, dt_items = 2, dt_k = self_k (PMF 2 1) \<rparr>"
    by (rule np_dtype_Inr) (simp add: itemsize_def PMF_def)
  show ?thesis
    unfolding init_coef_def Let_def fst_conv snd_conv d and_then_Inr
    by (simp add: init_eval)
qed


lemma init_coef_Nil:
  assumes "itemsize \<lparr> dt_users = nu, dt_items = ni, dt_k = self_k self \<rparr> < 2 ^ 28"
  shows "init_coef self rng [] sc (nu, ni) = Inl ZeroDivisionError"
proof -
  let ?dt = "\<lparr> dt_users = nu, dt_items = ni, dt_k = self_k self \<rparr>"
  let ?c0 = "replicate (1 + nu + ni + nu * self_k self + ni * self_k self) (0::real)"
  have d: "np_dtype nu ni (self_k self) = Inr ?dt" by (rule np_dtype_Inr[OF assms])
  have l: "length ?c0 = itemsize ?dt" by (simp add: itemsize_def)
  have u: "for_each xs (init_bu v [] sc) c = Inr c" for xs v c
    by (rule for_each_id) (simp add: init_bu_def)
  have i: "for_each xs (init_bi v [] sc) c = Inr c" for xs v c
    by (rule for_each_id) (simp add: init_bi_def)
  show ?thesis
    unfolding init_coef_def Let_def fst_conv snd_conv d and_then_Inr view_Inr[OF l]
    by (simp add: u i np_index_def)
qed






text \<open>
  Claim C7. With no event, and a layout that numpy accepts (less than \<open>2 ^ 28\<close> floats),
  \<^verbatim>\<open>_init_coef\<close> raises ZeroDivisionError (line 192), whatever the scores, the object
  counts, k and the generator are; \<^verbatim>\<open>fit\<close> raises it as well, before the loss is
  evaluated and before the optimizer is called, whatever the optimizer is.
\<close>

theorem init_coef_no_events:
  assumes "itemsize \<lparr> dt_users = nu, dt_items = ni, dt_k = self_k self \<rparr> < 2 ^ 28"
  shows "init_coef self rng [] sc (nu, ni) = Inl ZeroDivisionError \<and>
         fit self fmin rng [] sc (nu, ni) = Inl ZeroDivisionError"
  using init_coef_Nil[OF assms] by (simp add: fit_def)

theorem init_coef_no_events_witness:
  "itemsize \<lparr> dt_users = 2, dt_items = 3, dt_k = self_k (PMF 1 2) \<rparr> < 2 ^ 28 \<and>
   init_coef (PMF 1 2) (\<lambda>_. 0) [] [] (2, 3) = Inl ZeroDivisionError \<and>
   fit (PMF 1 2) (\<lambda>f x g. Inr x) (\<lambda>_. 0) [] [] (2, 3) = Inl ZeroDivisionError"
proof -
  have h: "itemsize \<lparr> dt_users = 2, dt_items = 3, dt_k = self_k (PMF 1 2) \<rparr> < 2 ^ 28"
    by (simp add: itemsize_def PMF_def)
  show ?thesis using init_coef_no_events[OF h, of "\<lambda>_. 0" "[]" "\<lambda>f x g. Inr x"] h by simp
qed





text \<open>
  Claim C3 at a data set with one user: two events of user 0 on the items 0 and 1, with the
  scores 1 and 3. The claim gives the global bias 2 and the user bias 0 (the mean of
  \<open>1 - 2\<close> and \<open>3 - 2\<close>); \<^verbatim>\<open>_init_coef\<close> raises TypeError at the assignment of line 178,
  because \<^verbatim>\<open>self.bu_\<close> is a \<^verbatim>\<open>numpy.float64\<close> and not an array, and so does \<^verbatim>\<open>fit\<close>.
\<close>

theorem init_coef_single_user:
  "init_coef (PMF 1 1) (\<lambda>_. 0) [(0, 0), (0, 1)] [1, 3] (1, 2) = Inl TypeError \<and>
   fit (PMF 1 1) (\<lambda>f x g. Inr x) (\<lambda>_. 0) [(0, 0), (0, 1)] [1, 3] (1, 2) = Inl TypeError"
proof -
  have d: "np_dtype 1 2 (self_k (PMF 1 1)) = Inr \<lparr> dt_users = 1, dt_items = 2, dt_k = self_k (PMF 1 1) \<rparr>"
    by (rule np_dtype_Inr) (simp add: itemsize_def PMF_def)
  have "init_coef (PMF 1 1) (\<lambda>_. 0) [(0, 0), (0, 1)] [1, 3] (1, 2) = Inl TypeError"
    unfolding init_coef_def Let_def fst_conv snd_conv d and_then_Inr
    by (simp add: init_eval)
  then show ?thesis by (simp add: fit_def)
qed

text \<open>
  Claim C8. Whenever \<^verbatim>\<open>_init_coef\<close> returns, the scale it has stored is
  \<open>C / (1 + (k + 1) * (n_users + n_items))\<close>, and every value that \<^verbatim>\<open>loss\<close> returns for a
  non-empty batch is the mean squared residual plus this scale times the sum of the
  squares of the user biases, item biases, user factors and item factors.
\<close>

theorem reg_scale:
  assumes "init_coef self rng ev sc (nu, ni) = Inr s"
  shows "self_reg s = self_C self / (1 + (real (self_k self) + 1) * (real nu + real ni)) \<and>
         (\<forall>c ev' sc' n_objs v es d.
            ev' \<noteq> [] \<and> view (self_dt s) c = Inr v \<and> esc c v ev' = Inr es \<and>
            np_broadcast2 (-) sc' es = Inr d \<longrightarrow>
            loss s c ev' sc' n_objs =
              Inr (Num (sumsq d / real (length ev') +
                        self_C self / (1 + (real (self_k self) + 1) * (real nu + real ni)) *
                        (sumsq (vec_values c (bu v)) + sumsq (vec_values c (bi v)) +
                         sumsq (concat (mat_rows c (p v))) + sumsq (concat (mat_rows c (q v)))))))"
proof -
  have r: "self_reg s = self_C self / (1 + (real (self_k self) + 1) * (real nu + real ni))"
  proof -
    have "real (1 + (self_k self + 1) * (nu + ni)) = 1 + (real (self_k self) + 1) * (real nu + real ni)"
      by (simp add: algebra_simps)
    then show ?thesis using init_coef_Inr(4)[OF assms] by (simp only:)
  qed
  show ?thesis
    unfolding r[symmetric] using r by (auto simp: loss_def Let_def)
qed

theorem reg_scale_witness:
  "init_coef (PMF 2 1) (\<lambda>_. 0) [(0, 0), (1, 1)] [1, 3] (2, 2) =
     Inr \<lparr> self_C = 2, self_k = 1, self_dt = \<lparr> dt_users = 2, dt_items = 2, dt_k = 1 \<rparr>,
           self_coef = [2, -1, 1, 0, 0, 0, 0, 0, 0], self_reg = 2 / 9 \<rparr> \<and>
   loss \<lparr> self_C = 2, self_k = 1, self_dt = \<lparr> dt_users = 2, dt_items = 2, dt_k = 1 \<rparr>,
           self_coef = [2, -1, 1, 0, 0, 0, 0, 0, 0], self_reg = 2 / 9 \<rparr>
        [2, -1, 1, 0, 0, 1, 0, 0, 2] [(0, 1), (1, 0)] [4, 3] (2, 2) = Inr (Num (37 / 18))"
proof -
  let ?S = "\<lparr> self_C = 2, self_k = 1, self_dt = \<lparr> dt_users = 2, dt_items = 2, dt_k = 1 \<rparr>,
           self_coef = [2, -1, 1, 0, 0, 0, 0, 0, 0], self_reg = 2 / 9 \<rparr>"
  let ?c = "[2, -1, 1, 0, 0, 1, 0, 0, 2 :: real]"
  let ?v = "\<lparr> mu = View1 0 1, bu = View1 1 2, bi = View1 3 2, p = View2 5 2 1, q = View2 7 2 1 \<rparr>"
  have v: "view (self_dt ?S) ?c = Inr ?v"
    by (simp add: view_def itemsize_def int_field_def off_bu_def off_bi_def off_p_def off_q_def)
  have e: "esc ?c ?v [(0, 1), (1, 0)] = Inr [3, 3]"
    by (simp add: esc_def mat_take_def np_take_def np_get_def np_index_def rows_def dot_def
        eval_nat_numeral)
  have b: "np_broadcast2 (-) [4, 3] [3, 3 :: real] = Inr [1, 0]"
    by (simp add: np_broadcast2_def)
  have "loss ?S ?c [(0, 1), (1, 0)] [4, 3] (2, 2) =
      Inr (Num (sumsq [1, 0] / real (length ([(0, 1), (1, 0)] :: event list)) +
                self_C (PMF 2 1) / (1 + (real (self_k (PMF 2 1)) + 1) * (real 2 + real 2)) *
                (sumsq (vec_values ?c (bu ?v)) + sumsq (vec_values ?c (bi ?v)) +
                 sumsq (concat (mat_rows ?c (p ?v))) + sumsq (concat (mat_rows ?c (q ?v))))))"
    by (rule reg_scale[OF ex_init1, THEN conjunct2, rule_format,
          where c = ?c and ev' = "[(0, 1), (1, 0)]" and sc' = "[4, 3]" and v = ?v
            and es = "[3, 3]" and d = "[1, 0]"])
       (simp only: v e b, simp)
  also have "\<dots> = Inr (Num (37 / 18))"
    by (simp add: sumsq_def rows_def PMF_def eval_nat_numeral)
  finally show ?thesis using ex_init1 by simp
qed
section \<open>The fitted model\<close>

lemma np_assign_length: "np_assign n b = Inr c \<Longrightarrow> length c = n"
  by (auto simp: np_assign_def split: if_splits)

lemma fit_cases:
  assumes "fit self fmin rng ev sc (nu, ni) = Inr m"
  obtains s coef where
    "init_coef self rng ev sc (nu, ni) = Inr s"
    "length coef = itemsize (self_dt s)"
    "add_unknown (s \<lparr> self_coef := coef \<rparr>) = Inr m"
proof -
  from assms obtain s l res0 coef where
    1: "init_coef self rng ev sc (nu, ni) = Inr s"
    and 2: "np_assign (length (self_coef s)) res0 = Inr coef"
    and 3: "add_unknown (s \<lparr> self_coef := coef \<rparr>) = Inr m"
    unfolding fit_def and_then_eq_Inr by blast
  have 4: "length coef = itemsize (self_dt s)"
    using np_assign_length[OF 2] init_coef_length[OF 1] by simp
  show ?thesis by (rule that[OF 1 4 3])
qed

lemma take_drop_map:
  "off + n \<le> length xs \<Longrightarrow> take n (drop off xs) = map (\<lambda>u. xs ! (off + u)) [0 ..< n]"
  by (simp add: list_eq_iff_nth_eq)

lemma row_bound:
  fixes r n k :: nat
  assumes "r < n"
  shows "r * k + k \<le> n * k"
proof -
  have "Suc r * k \<le> n * k" using assms by (intro mult_le_mono1) simp
  then show ?thesis by simp
qed

lemma rows_map:
  assumes "off + n * k \<le> length xs"
  shows "rows n k (drop off xs) = map (\<lambda>u. map (\<lambda>j. xs ! (off + u * k + j)) [0 ..< k]) [0 ..< n]"
proof -
  have "take k (drop (r * k) (drop off xs)) = map (\<lambda>j. xs ! (off + r * k + j)) [0 ..< k]"
    if "r < n" for r
  proof -
    have "off + r * k + k \<le> length xs" using row_bound[OF that, of k] assms by linarith
    then have "take k (drop (off + r * k) xs) = map (\<lambda>j. xs ! (off + r * k + j)) [0 ..< k]"
      by (rule take_drop_map)
    then show ?thesis by (simp add: add.commute)
  qed
  then show ?thesis by (simp add: rows_def)
qed

text \<open>The attributes of lines 378 to 384 when bu and bi are arrays.\<close>

lemma add_unknown_arrays:
  assumes len: "length (self_coef s) = itemsize (self_dt s)"
    and nu: "dt_users (self_dt s) \<noteq> 1" and ni: "dt_items (self_dt s) \<noteq> 1"
  shows "add_unknown s =
     Inr \<lparr> fit_mu = [self_coef s ! 0],
           fit_bu = map (\<lambda>u. self_coef s ! offset (self_dt s) (Bu u)) [0 ..< dt_users (self_dt s)] @ [0],
           fit_bi = map (\<lambda>i. self_coef s ! offset (self_dt s) (Bi i)) [0 ..< dt_items (self_dt s)] @ [0],
           fit_p = map (\<lambda>u. map (\<lambda>j. self_coef s ! offset (self_dt s) (P u j)) [0 ..< dt_k (self_dt s)])
                     [0 ..< dt_users (self_dt s)] @ [replicate (self_k s) 0],
           fit_q = map (\<lambda>i. map (\<lambda>j. self_coef s ! offset (self_dt s) (Q i j)) [0 ..< dt_k (self_dt s)])
                     [0 ..< dt_items (self_dt s)] @ [replicate (self_k s) 0] \<rparr>"
proof -
  let ?c = "self_coef s" and ?dt = "self_dt s"
  have L: "length ?c = 1 + dt_users ?dt + dt_items ?dt + dt_users ?dt * dt_k ?dt + dt_items ?dt * dt_k ?dt"
    using len by (simp add: itemsize_def)
  have m: "take 1 ?c = [?c ! 0]" using L by (cases ?c) simp_all
  have b: "take (dt_users ?dt) (drop 1 ?c) = map (\<lambda>u. ?c ! (1 + u)) [0 ..< dt_users ?dt]"
    by (rule take_drop_map) (use L in simp)
  have c: "take (dt_items ?dt) (drop (1 + dt_users ?dt) ?c)
      = map (\<lambda>i. ?c ! (1 + dt_users ?dt + i)) [0 ..< dt_items ?dt]"
    by (rule take_drop_map) (use L in simp)
  have pr: "rows (dt_users ?dt) (dt_k ?dt) (drop (1 + dt_users ?dt + dt_items ?dt) ?c)
      = map (\<lambda>u. map (\<lambda>j. ?c ! (1 + dt_users ?dt + dt_items ?dt + u * dt_k ?dt + j)) [0 ..< dt_k ?dt])
          [0 ..< dt_users ?dt]"
    by (rule rows_map) (use L in simp)
  have qr: "rows (dt_items ?dt) (dt_k ?dt) (drop (1 + dt_users ?dt + dt_items ?dt + dt_users ?dt * dt_k ?dt) ?c)
      = map (\<lambda>i. map (\<lambda>j. ?c ! (1 + dt_users ?dt + dt_items ?dt + dt_users ?dt * dt_k ?dt + i * dt_k ?dt + j))
               [0 ..< dt_k ?dt]) [0 ..< dt_items ?dt]"
    by (rule rows_map) (use L in simp)
  show ?thesis
    unfolding add_unknown_def view_Inr[OF len] and_then_Inr
    using nu ni m b c pr qr
    by (simp add: int_field_def off_bu_def off_bi_def off_p_def off_q_def)
qed

lemma dot_zero_left: "dot (replicate k 0) ys = 0"
proof (induction k arbitrary: ys)
  case 0
  then show ?case by (simp add: dot_def)
next
  case (Suc k)
  then show ?case by (cases ys) (simp_all add: dot_def)
qed

lemma dot_zero_right: "dot xs (replicate k 0) = 0"
proof (induction k arbitrary: xs)
  case 0
  then show ?case by (simp add: dot_def)
next
  case (Suc k)
  then show ?case by (cases xs) (simp_all add: dot_def)
qed

lemma np_take_single: "np_take xs [i] = and_then (np_get xs i) (\<lambda>x. Inr [x])"
  by (cases "np_get xs i") (simp_all add: np_take_def)

lemma np_get_index: "np_index (length xs) i = Inr a \<Longrightarrow> np_get xs i = Inr (xs ! a)"
  by (simp add: np_get_def)

lemma np_get_Inl: "np_index (length xs) i = Inl e \<Longrightarrow> np_get xs i = Inl e"
  by (simp add: np_get_def)

text \<open>\<^verbatim>\<open>raw_predict\<close> on one event.\<close>

lemma raw_predict_single:
  assumes "fit_mu m \<noteq> []"
    and "np_index (length (fit_bu m)) u = Inr a" "np_index (length (fit_bi m)) i = Inr b"
    and "length (fit_p m) = length (fit_bu m)" "length (fit_q m) = length (fit_bi m)"
  shows "raw_predict m [(u, i)] =
           Inr [fit_mu m ! 0 + fit_bu m ! a + fit_bi m ! b + dot (fit_p m ! a) (fit_q m ! b)]"
proof -
  have "np_get (fit_mu m) 0 = Inr (fit_mu m ! 0)"
    using assms(1) by (simp add: np_get_def np_index_def)
  moreover have "np_get (fit_p m) u = Inr (fit_p m ! a)" "np_get (fit_q m) i = Inr (fit_q m ! b)"
    using assms by (simp_all add: np_get_index)
  ultimately show ?thesis
    using assms(2,3) by (simp add: raw_predict_def np_take_single np_get_index)
qed

lemma raw_predict_error: "raw_predict m ev = Inl e \<Longrightarrow> e = IndexError"
  by (auto simp: raw_predict_def and_then_eq_Inl dest: np_get_error np_take_error)

lemma raw_predict_out_of_range:
  assumes "np_index (length (fit_bu m)) u = Inl e \<or> np_index (length (fit_bi m)) i = Inl e"
  shows "raw_predict m [(u, i)] = Inl IndexError"
proof (cases "raw_predict m [(u, i)]")
  case (Inl e')
  then show ?thesis using raw_predict_error[OF Inl] by simp
next
  case (Inr r)
  then obtain x y where "np_take (fit_bu m) [u] = Inr x" "np_take (fit_bi m) [i] = Inr y"
    by (auto simp: raw_predict_def and_then_eq_Inr)
  then have "\<exists>a. np_get (fit_bu m) u = Inr a" "\<exists>b. np_get (fit_bi m) i = Inr b"
    by (auto simp: np_take_single and_then_eq_Inr)
  then show ?thesis using assms np_get_Inl by fastforce
qed

lemma np_index_nonneg: "0 \<le> i \<Longrightarrow> i < int n \<Longrightarrow> np_index n i = Inr (nat i)"
  by (simp add: np_index_def)

lemma fit_model:
  assumes "fit self fmin rng ev sc (nu, ni) = Inr m"
  obtains s res0 coef where
    "init_coef self rng ev sc (nu, ni) = Inr s"
    "fmin (\<lambda>c. loss s c ev sc (nu, ni)) (self_coef s) (\<lambda>c. grad_loss s c ev sc (nu, ni)) = Inr res0"
    "np_assign (length (self_coef s)) res0 = Inr coef"
    "length coef = 1 + nu + ni + nu * self_k self + ni * self_k self"
    "m = \<lparr> fit_mu = [coef ! 0],
           fit_bu = map (\<lambda>u. coef ! offset \<lparr> dt_users = nu, dt_items = ni, dt_k = self_k self \<rparr> (Bu u))
                      [0 ..< nu] @ [0],
           fit_bi = map (\<lambda>i. coef ! offset \<lparr> dt_users = nu, dt_items = ni, dt_k = self_k self \<rparr> (Bi i))
                      [0 ..< ni] @ [0],
           fit_p = map (\<lambda>u. map (\<lambda>j. coef ! offset \<lparr> dt_users = nu, dt_items = ni, dt_k = self_k self \<rparr> (P u j))
                                [0 ..< self_k self]) [0 ..< nu] @ [replicate (self_k self) 0],
           fit_q = map (\<lambda>i. map (\<lambda>j. coef ! offset \<lparr> dt_users = nu, dt_items = ni, dt_k = self_k self \<rparr> (Q i j))
                                [0 ..< self_k self]) [0 ..< ni] @ [replicate (self_k self) 0] \<rparr>"
proof -
  let ?dt = "\<lparr> dt_users = nu, dt_items = ni, dt_k = self_k self \<rparr>"
  from assms obtain s l res0 coef where
    1: "init_coef self rng ev sc (nu, ni) = Inr s"
    and f: "fmin (\<lambda>c. loss s c ev sc (nu, ni)) (self_coef s) (\<lambda>c. grad_loss s c ev sc (nu, ni)) = Inr res0"
    and 2: "np_assign (length (self_coef s)) res0 = Inr coef"
    and 3: "add_unknown (s \<lparr> self_coef := coef \<rparr>) = Inr m"
    unfolding fit_def and_then_eq_Inr by blast
  have dt: "self_dt s = ?dt" and k: "self_k s = self_k self" using init_coef_Inr[OF 1] by simp_all
  have 4: "length coef = itemsize ?dt"
    using np_assign_length[OF 2] init_coef_length[OF 1] dt by simp
  have n1: "nu \<noteq> 1" "ni \<noteq> 1" using init_coef_arrays[OF 1] by simp_all
  let ?s = "s \<lparr> self_coef := coef \<rparr>"
  have "length (self_coef ?s) = itemsize (self_dt ?s)" "dt_users (self_dt ?s) \<noteq> 1"
    "dt_items (self_dt ?s) \<noteq> 1"
    using 4 dt n1 by simp_all
  from add_unknown_arrays[OF this] 3 dt k
  have 5: "m = \<lparr> fit_mu = [coef ! 0],
           fit_bu = map (\<lambda>u. coef ! offset ?dt (Bu u)) [0 ..< nu] @ [0],
           fit_bi = map (\<lambda>i. coef ! offset ?dt (Bi i)) [0 ..< ni] @ [0],
           fit_p = map (\<lambda>u. map (\<lambda>j. coef ! offset ?dt (P u j)) [0 ..< self_k self]) [0 ..< nu]
                     @ [replicate (self_k self) 0],
           fit_q = map (\<lambda>i. map (\<lambda>j. coef ! offset ?dt (Q i j)) [0 ..< self_k self]) [0 ..< ni]
                     @ [replicate (self_k self) 0] \<rparr>"
    by simp
  have 6: "length coef = 1 + nu + ni + nu * self_k self + ni * self_k self"
    using 4 by (simp add: itemsize_def)
  show ?thesis by (rule that[OF 1 f 2 6 5])
qed

lemma fit_lengths:
  assumes "fit self fmin rng ev sc (nu, ni) = Inr m"
  shows "fit_mu m \<noteq> []" "length (fit_bu m) = nu + 1" "length (fit_bi m) = ni + 1"
    "length (fit_p m) = nu + 1" "length (fit_q m) = ni + 1"
    "fit_bu m ! nu = 0" "fit_bi m ! ni = 0"
    "fit_p m ! nu = replicate (self_k self) 0" "fit_q m ! ni = replicate (self_k self) 0"
proof -
  have "fit_mu m \<noteq> [] \<and> length (fit_bu m) = nu + 1 \<and> length (fit_bi m) = ni + 1 \<and>
    length (fit_p m) = nu + 1 \<and> length (fit_q m) = ni + 1 \<and>
    fit_bu m ! nu = 0 \<and> fit_bi m ! ni = 0 \<and>
    fit_p m ! nu = replicate (self_k self) 0 \<and> fit_q m ! ni = replicate (self_k self) 0"
  proof (rule fit_model[OF assms], goal_cases)
    case (1 s res0 coef)
    show ?case unfolding 1(5) by (simp add: nth_append)
  qed
  then show "fit_mu m \<noteq> []" "length (fit_bu m) = nu + 1" "length (fit_bi m) = ni + 1"
    "length (fit_p m) = nu + 1" "length (fit_q m) = ni + 1"
    "fit_bu m ! nu = 0" "fit_bi m ! ni = 0"
    "fit_p m ! nu = replicate (self_k self) 0" "fit_q m ! ni = replicate (self_k self) 0"
    by simp_all
qed

lemma ex_fit:
  "fit (PMF 2 1) (\<lambda>f x g. Inr [2, -1, 1, 1 / 2, 0, 1, 2, 3, 4]) (\<lambda>_. 0) [(0, 0), (1, 1)] [1, 3] (2, 2) =
     Inr \<lparr> fit_mu = [2], fit_bu = [-1, 1, 0], fit_bi = [1 / 2, 0, 0],
           fit_p = [[1], [2], [0]], fit_q = [[3], [4], [0]] \<rparr>"
proof -
  let ?S = "\<lparr> self_C = 2, self_k = 1, self_dt = \<lparr> dt_users = 2, dt_items = 2, dt_k = 1 \<rparr>,
           self_coef = [2, -1, 1, 0, 0, 0, 0, 0, 0], self_reg = 2 / 9 \<rparr>"
  let ?c = "[2, -1, 1, 0, 0, 0, 0, 0, 0 :: real]"
  let ?r = "[2, -1, 1, 1 / 2, 0, 1, 2, 3, 4 :: real]"
  let ?v = "\<lparr> mu = View1 0 1, bu = View1 1 2, bi = View1 3 2, p = View2 5 2 1, q = View2 7 2 1 \<rparr>"
  have v: "view \<lparr> dt_users = 2, dt_items = 2, dt_k = 1 \<rparr> ?c = Inr ?v"
    by (simp add: view_def itemsize_def int_field_def off_bu_def off_bi_def off_p_def off_q_def)
  have v': "view \<lparr> dt_users = 2, dt_items = 2, dt_k = 1 \<rparr> ?r = Inr ?v"
    by (simp add: view_def itemsize_def int_field_def off_bu_def off_bi_def off_p_def off_q_def)
  have e: "esc ?c ?v [(0, 0), (1, 1)] = Inr [1, 3]"
    by (simp add: esc_def mat_take_def np_take_def np_get_def np_index_def rows_def dot_def
        eval_nat_numeral)
  have b: "np_broadcast2 (-) [1, 3] [1, 3 :: real] = Inr [0, 0]"
    by (simp add: np_broadcast2_def)
  have l: "loss ?S ?c [(0, 0), (1, 1)] [1, 3] (2, 2) = Inr (Num (4 / 9))"
    unfolding loss_def Let_def
    by (simp only: pmf_fit.select_convs pmf.select_convs v and_then_Inr e b)
       (simp add: sumsq_def rows_def eval_nat_numeral)
  have a: "add_unknown (?S \<lparr> self_coef := ?r \<rparr>) =
      Inr \<lparr> fit_mu = [2], fit_bu = [-1, 1, 0], fit_bi = [1 / 2, 0, 0],
           fit_p = [[1], [2], [0]], fit_q = [[3], [4], [0]] \<rparr>"
    unfolding add_unknown_def
    by (simp only: pmf_fit.select_convs pmf.select_convs pmf_fit.update_convs v' and_then_Inr)
       (simp add: rows_def eval_nat_numeral)
  have n: "np_assign (length ?c) ?r = Inr ?r" by (simp add: np_assign_def)
  show ?thesis
    unfolding fit_def ex_init1 and_then_Inr
    by (simp only: pmf_fit.select_convs pmf.select_convs l and_then_Inr n a)
qed

text \<open>
  Claim C4. When \<^verbatim>\<open>fit\<close> returns, the fitted arrays are those of the optimized buffer
  (the result of the optimizer, assigned to \<^verbatim>\<open>self._coef\<close>) with one more row each: the
  global bias is the buffer's entry 0 alone, the user and item biases are the bias regions
  followed by one 0, and the factor arrays are the rows of the factor regions followed by
  one row of k zeros. A prediction for the user index \<open>n_users\<close> and any item index from 0
  to \<open>n_items\<close> is the global bias plus that item's bias, and a prediction for the item
  index \<open>n_items\<close> and any user index from 0 to \<open>n_users\<close> is the global bias plus that
  user's bias.
\<close>

theorem fit_fallback_rows:
  assumes "fit self fmin rng ev sc (nu, ni) = Inr m"
  shows "\<exists>s res0 coef.
     init_coef self rng ev sc (nu, ni) = Inr s \<and>
     fmin (\<lambda>c. loss s c ev sc (nu, ni)) (self_coef s) (\<lambda>c. grad_loss s c ev sc (nu, ni)) = Inr res0 \<and>
     np_assign (length (self_coef s)) res0 = Inr coef \<and>
     length coef = 1 + nu + ni + nu * self_k self + ni * self_k self \<and>
     fit_mu m = [coef ! 0] \<and>
     fit_bu m = map (\<lambda>u. coef ! offset \<lparr> dt_users = nu, dt_items = ni, dt_k = self_k self \<rparr> (Bu u))
                  [0 ..< nu] @ [0] \<and>
     fit_bi m = map (\<lambda>i. coef ! offset \<lparr> dt_users = nu, dt_items = ni, dt_k = self_k self \<rparr> (Bi i))
                  [0 ..< ni] @ [0] \<and>
     fit_p m = map (\<lambda>u. map (\<lambda>j. coef ! offset \<lparr> dt_users = nu, dt_items = ni, dt_k = self_k self \<rparr> (P u j))
                            [0 ..< self_k self]) [0 ..< nu] @ [replicate (self_k self) 0] \<and>
     fit_q m = map (\<lambda>i. map (\<lambda>j. coef ! offset \<lparr> dt_users = nu, dt_items = ni, dt_k = self_k self \<rparr> (Q i j))
                            [0 ..< self_k self]) [0 ..< ni] @ [replicate (self_k self) 0] \<and>
     (\<forall>i. 0 \<le> i \<and> i \<le> int ni \<longrightarrow>
        raw_predict m [(int nu, i)] = Inr [fit_mu m ! 0 + fit_bi m ! nat i]) \<and>
     (\<forall>u. 0 \<le> u \<and> u \<le> int nu \<longrightarrow>
        raw_predict m [(u, int ni)] = Inr [fit_mu m ! 0 + fit_bu m ! nat u])"
proof (rule fit_model[OF assms], goal_cases)
  case (1 s res0 coef)
  note L = fit_lengths[OF assms]
  have a: "raw_predict m [(int nu, i)] = Inr [fit_mu m ! 0 + fit_bi m ! nat i]"
    if "0 \<le> i \<and> i \<le> int ni" for i
  proof -
    have "np_index (length (fit_bu m)) (int nu) = Inr nu"
      using L(2) by (simp add: np_index_def)
    moreover have "np_index (length (fit_bi m)) i = Inr (nat i)"
      using L(3) that by (simp add: np_index_def)
    ultimately have "raw_predict m [(int nu, i)] =
        Inr [fit_mu m ! 0 + fit_bu m ! nu + fit_bi m ! nat i + dot (fit_p m ! nu) (fit_q m ! nat i)]"
      using L(1,2,3,4,5) by (intro raw_predict_single) simp_all
    then show ?thesis using L(6,8) by (simp add: dot_zero_left)
  qed
  have b: "raw_predict m [(u, int ni)] = Inr [fit_mu m ! 0 + fit_bu m ! nat u]"
    if "0 \<le> u \<and> u \<le> int nu" for u
  proof -
    have "np_index (length (fit_bi m)) (int ni) = Inr ni"
      using L(3) by (simp add: np_index_def)
    moreover have "np_index (length (fit_bu m)) u = Inr (nat u)"
      using L(2) that by (simp add: np_index_def)
    ultimately have "raw_predict m [(u, int ni)] =
        Inr [fit_mu m ! 0 + fit_bu m ! nat u + fit_bi m ! ni + dot (fit_p m ! nat u) (fit_q m ! ni)]"
      using L(1,2,3,4,5) by (intro raw_predict_single) simp_all
    then show ?thesis using L(7,9) by (simp add: dot_zero_right)
  qed
  have c: "fit_mu m = [coef ! 0]"
    and d: "fit_bu m = map (\<lambda>u. coef ! offset \<lparr> dt_users = nu, dt_items = ni, dt_k = self_k self \<rparr> (Bu u))
                  [0 ..< nu] @ [0]"
    and e: "fit_bi m = map (\<lambda>i. coef ! offset \<lparr> dt_users = nu, dt_items = ni, dt_k = self_k self \<rparr> (Bi i))
                  [0 ..< ni] @ [0]"
    and f: "fit_p m = map (\<lambda>u. map (\<lambda>j. coef ! offset \<lparr> dt_users = nu, dt_items = ni, dt_k = self_k self \<rparr> (P u j))
                            [0 ..< self_k self]) [0 ..< nu] @ [replicate (self_k self) 0]"
    and g: "fit_q m = map (\<lambda>i. map (\<lambda>j. coef ! offset \<lparr> dt_users = nu, dt_items = ni, dt_k = self_k self \<rparr> (Q i j))
                            [0 ..< self_k self]) [0 ..< ni] @ [replicate (self_k self) 0]"
    unfolding 1(5) by simp_all
  show ?case
    apply (rule exI[of _ s], rule exI[of _ res0], rule exI[of _ coef])
    apply (intro conjI)
              apply (rule 1(1))
             apply (rule 1(2))
            apply (rule 1(3))
           apply (rule 1(4))
          apply (rule c)
         apply (rule d)
        apply (rule e)
       apply (rule f)
      apply (rule g)
    using a apply blast
    using b apply blast
    done
qed

theorem fit_fallback_rows_witness:
  "fit (PMF 2 1) (\<lambda>f x g. Inr [2, -1, 1, 1 / 2, 0, 1, 2, 3, 4]) (\<lambda>_. 0) [(0, 0), (1, 1)] [1, 3] (2, 2) =
     Inr \<lparr> fit_mu = [2], fit_bu = [-1, 1, 0], fit_bi = [1 / 2, 0, 0],
           fit_p = [[1], [2], [0]], fit_q = [[3], [4], [0]] \<rparr> \<and>
   raw_predict \<lparr> fit_mu = [2], fit_bu = [-1, 1, 0], fit_bi = [1 / 2, 0, 0],
           fit_p = [[1], [2], [0]], fit_q = [[3], [4], [0]] \<rparr> [(2, 0)] = Inr [5 / 2] \<and>
   raw_predict \<lparr> fit_mu = [2], fit_bu = [-1, 1, 0], fit_bi = [1 / 2, 0, 0],
           fit_p = [[1], [2], [0]], fit_q = [[3], [4], [0]] \<rparr> [(1, 2)] = Inr [3]"
proof -
  let ?M = "\<lparr> fit_mu = [2], fit_bu = [-1, 1, 0], fit_bi = [1 / 2, 0, 0],
           fit_p = [[1], [2], [0]], fit_q = [[3], [4 :: real], [0]] \<rparr>"
  from fit_fallback_rows[OF ex_fit]
  have a: "\<forall>i. 0 \<le> i \<and> i \<le> int 2 \<longrightarrow> raw_predict ?M [(int 2, i)] = Inr [fit_mu ?M ! 0 + fit_bi ?M ! nat i]"
    and b: "\<forall>u. 0 \<le> u \<and> u \<le> int 2 \<longrightarrow> raw_predict ?M [(u, int 2)] = Inr [fit_mu ?M ! 0 + fit_bu ?M ! nat u]"
    by blast+
  have "raw_predict ?M [(2, 0)] = Inr [5 / 2]" using a[rule_format, of 0] by simp
  moreover have "raw_predict ?M [(1, 2)] = Inr [3]" using b[rule_format, of 1] by simp
  ultimately show ?thesis using ex_fit by simp
qed
end
